theory Spec2Isabelle
  imports Main
begin

section \<open>lines2anki: the batch importer and its settings dialog\<close>

text \<open>
  A shallow embedding of \<^verbatim>\<open>src/lines2anki/__init__.py\<close>. Python strings are
  modelled as \<open>string\<close>; a character is a byte, so text outside ASCII is its UTF-8
  encoding. Everything the add-on reads from its host (the media type tuples of the
  editor, the clock, the random generator, the directory, the collection) is explicit:
  a parameter, a field of the world record, or an oracle indexed by a call counter.
  Exceptions are values of \<open>py_error\<close>, and a function that can raise returns
  \<open>py_error + 'a\<close>.
\<close>

subsection \<open>Python exceptions and string helpers\<close>

datatype py_error =
    OSError
  | ValueError
  | IndexError
  | KeyError
  | TypeError
  | AttributeError
  | JSONDecodeError

text \<open>\<^verbatim>\<open>str.lower()\<close> on ASCII letters; every other byte is left as it is.\<close>

definition lower_char :: "char \<Rightarrow> char" where
  "lower_char c =
     (if 65 \<le> (of_char c :: nat) \<and> (of_char c :: nat) \<le> 90
      then char_of ((of_char c :: nat) + 32) else c)"

definition lower :: "string \<Rightarrow> string" where
  "lower s = map lower_char s"

text \<open>\<^verbatim>\<open>prov.replace(' ', '.')\<close>.\<close>

definition replace_space_dot :: "string \<Rightarrow> string" where
  "replace_space_dot s = map (\<lambda>c. if c = CHR '' '' then CHR ''.'' else c) s"

text \<open>\<^verbatim>\<open>str(n)\<close> for a natural number: its decimal digits.\<close>

definition digit_char :: "nat \<Rightarrow> char" where
  "digit_char d = char_of (48 + d)"

fun str_nat :: "nat \<Rightarrow> string" where
  "str_nat n = (if n < 10 then [digit_char n] else str_nat (n div 10) @ [digit_char (n mod 10)])"

declare str_nat.simps [simp del]

text \<open>
  \<^verbatim>\<open>os.path.splitext\<close> on a directory entry (a name without a path separator): the
  extension starts at the last dot, unless only dots come before it; then the whole
  name is the root and the extension is empty.
\<close>

definition splitext :: "string \<Rightarrow> string \<times> string" where
  "splitext p =
     (let ext_rev = takeWhile (\<lambda>c. c \<noteq> CHR ''.'') (rev p);
          rest_rev = dropWhile (\<lambda>c. c \<noteq> CHR ''.'') (rev p)
      in case rest_rev of
           [] \<Rightarrow> (p, [])
         | dot # root_rev \<Rightarrow>
             if \<forall>c \<in> set root_rev. c = CHR ''.'' then (p, [])
             else (rev root_rev, dot # rev ext_rev))"

subsection \<open>Constants of the module\<close>

definition SUB_TYPES :: "string list" where
  "SUB_TYPES = [''lrc'']"

definition FILL_NOTHING :: string where "FILL_NOTHING = ''''"
definition FILL_FILENAME :: string where "FILL_FILENAME = ''File Name''"
definition FILL_PROV :: string where "FILL_PROV = ''Provenance''"
definition FILL_AUDIO :: string where "FILL_AUDIO = ''Audio''"
definition FILL_LINE :: string where "FILL_LINE = ''Subtitle''"
definition FILL_IMAGE :: string where "FILL_IMAGE = ''Random Image''"

definition FILLING_OPTIONS :: "string list" where
  "FILLING_OPTIONS =
     [FILL_NOTHING, FILL_FILENAME, FILL_PROV, FILL_AUDIO, FILL_LINE, FILL_IMAGE]"

text \<open>
  Python list indexing \<^verbatim>\<open>xs[i]\<close>: a negative index counts from the end, and an index
  outside \<open>-len \<dots> len - 1\<close> raises \<^verbatim>\<open>IndexError\<close>.
\<close>

definition py_index :: "'a list \<Rightarrow> int \<Rightarrow> py_error + 'a" where
  "py_index xs i =
     (if 0 \<le> i \<and> i < int (length xs) then Inr (xs ! nat i)
      else if i < 0 \<and> - int (length xs) \<le> i then Inr (xs ! nat (int (length xs) + i))
      else Inl IndexError)"

subsection \<open>Classification of directory entries\<close>

text \<open>
  The role given to an entry by the first loop of \<^verbatim>\<open>do_import\<close> (lines 116-130).
  \<^verbatim>\<open>AUDIO_TYPES\<close> and \<^verbatim>\<open>IMAGE_TYPES\<close> are the host editor's tuples, taken as
  parameters.
\<close>

datatype role = Audio | Subtitle | Image | Ignored

definition classify :: "string list \<Rightarrow> string list \<Rightarrow> string \<Rightarrow> role" where
  "classify AUDIO_TYPES IMAGE_TYPES f =
     (let (file_root, ext) = splitext f;
          ext' = lower (drop 1 ext)
      in if ext' \<in> set AUDIO_TYPES then Audio
         else if ext' \<in> set SUB_TYPES then Subtitle
         else if ext' \<in> set IMAGE_TYPES then Image
         else Ignored)"

subsection \<open>Classification ignores the case of the extension\<close>

lemma takeWhile_all_then: "\<forall>x \<in> set xs. P x \<Longrightarrow> \<not> P y \<Longrightarrow> takeWhile P (xs @ y # ys) = xs"
  by (induction xs) auto

lemma dropWhile_all_then: "\<forall>x \<in> set xs. P x \<Longrightarrow> \<not> P y \<Longrightarrow> dropWhile P (xs @ y # ys) = y # ys"
  by (induction xs) auto









subsection \<open>Timestamp stripping\<close>

text \<open>
  \<^verbatim>\<open>re.sub(r'\[[0-9]+:[0-9]+:[0-9]+\]', '', s)\<close> (line 152). \<open>digits1\<close> is the
  greedy \<^verbatim>\<open>[0-9]+\<close>: it fails when no digit is there, and otherwise returns what
  follows the longest run of digits. The character the pattern wants next is never a
  digit, so giving back digits cannot turn a failure into a match. \<open>match_ts\<close> is a
  match of the whole pattern at the start of the string and returns what follows it.
\<close>

definition is_digit :: "char \<Rightarrow> bool" where
  "is_digit c \<longleftrightarrow> 48 \<le> (of_char c :: nat) \<and> (of_char c :: nat) \<le> 57"

definition digits1 :: "string \<Rightarrow> string option" where
  "digits1 s = (if takeWhile is_digit s = [] then None else Some (dropWhile is_digit s))"

definition expect :: "char \<Rightarrow> string \<Rightarrow> string option" where
  "expect c s = (case s of [] \<Rightarrow> None | x # xs \<Rightarrow> if x = c then Some xs else None)"

definition match_ts :: "string \<Rightarrow> string option" where
  "match_ts s =
     Option.bind (expect CHR ''['' s) (\<lambda>s1.
     Option.bind (digits1 s1) (\<lambda>s2.
     Option.bind (expect CHR '':'' s2) (\<lambda>s3.
     Option.bind (digits1 s3) (\<lambda>s4.
     Option.bind (expect CHR '':'' s4) (\<lambda>s5.
     Option.bind (digits1 s5) (\<lambda>s6.
     expect CHR '']'' s6))))))"

lemma expect_length: "expect c s = Some r \<Longrightarrow> length r < length s"
  by (auto simp: expect_def split: list.splits if_splits)

lemma digits1_length: "digits1 s = Some r \<Longrightarrow> length r \<le> length s"
  by (auto simp: digits1_def length_dropWhile_le split: if_splits)

lemma match_ts_length: "match_ts s = Some r \<Longrightarrow> length r < length s"
  unfolding match_ts_def
  by (auto simp: bind_eq_Some_conv dest!: expect_length digits1_length)

text \<open>
  The substitution scans from the left: where the pattern matches, the match is dropped
  and the scan goes on after it; elsewhere the character is kept.
\<close>

function strip_timestamps :: "string \<Rightarrow> string" where
  "strip_timestamps [] = []"
| "strip_timestamps (c # cs) =
     (case match_ts (c # cs) of
        Some rest \<Rightarrow> strip_timestamps rest
      | None \<Rightarrow> c # strip_timestamps cs)"
  by pat_completeness auto
termination
  by (relation "measure length") (auto dest: match_ts_length)

subsection \<open>What timestamp stripping removes\<close>

text \<open>
  The pattern in the words of the specification: an opening bracket, three non-empty
  runs of digits separated by colons, a closing bracket. \<open>has_timestamp\<close> says that
  some substring is such a token; \<open>contains_ts\<close> is the same test run with the
  matcher of the code.
\<close>

definition timestamp_token :: "string \<Rightarrow> bool" where
  "timestamp_token tok \<longleftrightarrow>
     (\<exists>h m s. tok = CHR ''['' # h @ CHR '':'' # m @ CHR '':'' # s @ [CHR '']'']
        \<and> h \<noteq> [] \<and> m \<noteq> [] \<and> s \<noteq> []
        \<and> (\<forall>c \<in> set h \<union> set m \<union> set s. is_digit c))"

definition has_timestamp :: "string \<Rightarrow> bool" where
  "has_timestamp s \<longleftrightarrow> (\<exists>a tok b. s = a @ tok @ b \<and> timestamp_token tok)"

primrec contains_ts :: "string \<Rightarrow> bool" where
  "contains_ts [] = False"
| "contains_ts (c # cs) = (match_ts (c # cs) \<noteq> None \<or> contains_ts cs)"

lemma not_digit_colon: "\<not> is_digit CHR '':''" by (simp add: is_digit_def)
lemma not_digit_close: "\<not> is_digit CHR '']''" by (simp add: is_digit_def)
lemma not_digit_open: "\<not> is_digit CHR ''[''" by (simp add: is_digit_def)

lemma digits1_append:
  assumes "h \<noteq> []" and "\<forall>c \<in> set h. is_digit c" and "\<not> is_digit x"
  shows "digits1 (h @ x # r) = Some (x # r)"
proof -
  have t: "takeWhile is_digit (h @ x # r) = h"
    using assms(2,3) by (rule takeWhile_all_then)
  have d: "dropWhile is_digit (h @ x # r) = x # r"
    using assms(2,3) by (rule dropWhile_all_then)
  show ?thesis unfolding digits1_def t d using assms(1) by simp
qed

lemma digits1_SomeD:
  assumes "digits1 s = Some r"
  shows "\<exists>h. h \<noteq> [] \<and> (\<forall>c \<in> set h. is_digit c) \<and> s = h @ r"
proof -
  from assms have ne: "takeWhile is_digit s \<noteq> []" and r: "r = dropWhile is_digit s"
    by (auto simp: digits1_def split: if_splits)
  have "s = takeWhile is_digit s @ r" using r by simp
  moreover have "\<forall>c \<in> set (takeWhile is_digit s). is_digit c"
    by (auto dest: set_takeWhileD)
  ultimately show ?thesis using ne by blast
qed

lemma expect_Some: "expect c s = Some r \<longleftrightarrow> s = c # r"
  by (auto simp: expect_def split: list.splits)

lemma match_ts_token:
  assumes "timestamp_token tok"
  shows "match_ts (tok @ r) = Some r"
proof -
  from assms obtain h m s where
    tok: "tok = CHR ''['' # h @ CHR '':'' # m @ CHR '':'' # s @ [CHR '']'']"
    and ne: "h \<noteq> []" "m \<noteq> []" "s \<noteq> []"
    and dg: "\<forall>c \<in> set h. is_digit c" "\<forall>c \<in> set m. is_digit c" "\<forall>c \<in> set s. is_digit c"
    unfolding timestamp_token_def by auto
  have e1: "expect CHR ''['' (tok @ r) = Some (h @ CHR '':'' # m @ CHR '':'' # s @ CHR '']'' # r)"
    by (simp add: expect_def tok)
  have d1: "digits1 (h @ CHR '':'' # m @ CHR '':'' # s @ CHR '']'' # r)
              = Some (CHR '':'' # m @ CHR '':'' # s @ CHR '']'' # r)"
    using ne(1) dg(1) not_digit_colon by (rule digits1_append)
  have d2: "digits1 (m @ CHR '':'' # s @ CHR '']'' # r) = Some (CHR '':'' # s @ CHR '']'' # r)"
    using ne(2) dg(2) not_digit_colon by (rule digits1_append)
  have d3: "digits1 (s @ CHR '']'' # r) = Some (CHR '']'' # r)"
    using ne(3) dg(3) not_digit_close by (rule digits1_append)
  show ?thesis
    unfolding match_ts_def e1 by (simp add: d1 d2 d3 expect_def)
qed

lemma match_ts_SomeD:
  assumes "match_ts s = Some r"
  shows "\<exists>tok. timestamp_token tok \<and> s = tok @ r"
proof -
  from assms obtain s1 s2 s3 s4 s5 s6 where
    a: "expect CHR ''['' s = Some s1" "digits1 s1 = Some s2" "expect CHR '':'' s2 = Some s3"
       "digits1 s3 = Some s4" "expect CHR '':'' s4 = Some s5" "digits1 s5 = Some s6"
       "expect CHR '']'' s6 = Some r"
    unfolding match_ts_def by (auto simp: bind_eq_Some_conv)
  from digits1_SomeD [OF a(2)] obtain h where h: "h \<noteq> []" "\<forall>c \<in> set h. is_digit c" "s1 = h @ s2" by blast
  from digits1_SomeD [OF a(4)] obtain m where m: "m \<noteq> []" "\<forall>c \<in> set m. is_digit c" "s3 = m @ s4" by blast
  from digits1_SomeD [OF a(6)] obtain d where d: "d \<noteq> []" "\<forall>c \<in> set d. is_digit c" "s5 = d @ s6" by blast
  have s: "s = (CHR ''['' # h @ CHR '':'' # m @ CHR '':'' # d @ [CHR '']'']) @ r"
    using a(1,3,5,7) h(3) m(3) d(3) by (simp add: expect_Some)
  have "timestamp_token (CHR ''['' # h @ CHR '':'' # m @ CHR '':'' # d @ [CHR '']''])"
    unfolding timestamp_token_def using h(1,2) m(1,2) d(1,2) by blast
  with s show ?thesis by blast
qed

lemma match_ts_iff: "match_ts s = Some r \<longleftrightarrow> (\<exists>tok. timestamp_token tok \<and> s = tok @ r)"
  using match_ts_SomeD match_ts_token by blast

lemma token_not_Nil: "timestamp_token tok \<Longrightarrow> tok \<noteq> []"
  by (auto simp: timestamp_token_def)

lemma token_hd: "timestamp_token tok \<Longrightarrow> \<exists>t. tok = CHR ''['' # t \<and> CHR ''['' \<notin> set t"
proof -
  assume "timestamp_token tok"
  then obtain h m s where
    tok: "tok = CHR ''['' # h @ CHR '':'' # m @ CHR '':'' # s @ [CHR '']'']"
    and dg: "\<forall>c \<in> set h \<union> set m \<union> set s. is_digit c"
    unfolding timestamp_token_def by auto
  have "CHR ''['' \<notin> set h \<union> set m \<union> set s" using dg not_digit_open by blast
  then have "CHR ''['' \<notin> set (h @ CHR '':'' # m @ CHR '':'' # s @ [CHR '']''])" by simp
  with tok show ?thesis by blast
qed

lemma match_ts_append: "match_ts s = Some r \<Longrightarrow> match_ts (s @ x) = Some (r @ x)"
proof -
  assume "match_ts s = Some r"
  then obtain tok where "timestamp_token tok" "s = tok @ r" using match_ts_SomeD by blast
  then show ?thesis using match_ts_token [of tok "r @ x"] by simp
qed

lemma match_before_token:
  assumes "s \<noteq> []" and "timestamp_token tok" and "match_ts (s @ tok @ b) = Some r"
  shows "\<exists>r'. match_ts s = Some r'"
proof -
  from assms(3) obtain tok' where t': "timestamp_token tok'" and eq: "s @ tok @ b = tok' @ r"
    using match_ts_SomeD by blast
  from token_hd [OF t'] obtain u where u: "tok' = CHR ''['' # u" "CHR ''['' \<notin> set u" by blast
  from token_hd [OF assms(2)] obtain v where v: "tok = CHR ''['' # v" by blast
  from eq obtain us where
    "(s = tok' @ us \<and> us @ tok @ b = r) \<or> (s @ us = tok' \<and> tok @ b = us @ r)"
    by (auto simp: append_eq_append_conv2)
  then show ?thesis
  proof
    assume "s = tok' @ us \<and> us @ tok @ b = r"
    then show ?thesis using match_ts_token [OF t', of us] by auto
  next
    assume c: "s @ us = tok' \<and> tok @ b = us @ r"
    show ?thesis
    proof (cases us)
      case Nil
      with c have "s = tok' @ []" by simp
      then show ?thesis using match_ts_token [OF t', of "[]"] by auto
    next
      case (Cons x xs)
      with c v have "x = CHR ''[''" by simp
      from assms(1) obtain y ys where s: "s = y # ys" by (cases s) auto
      with c u Cons have "u = ys @ x # xs" by simp
      with \<open>x = CHR ''[''\<close> u(2) show ?thesis by simp
    qed
  qed
qed

lemma strip_append_token:
  assumes "timestamp_token tok"
  shows "strip_timestamps (a @ tok @ b) = strip_timestamps a @ strip_timestamps b"
proof (induction a rule: strip_timestamps.induct)
  case 1
  from token_not_Nil [OF assms] obtain c cs where tc: "tok = c # cs" by (cases tok) auto
  have "match_ts ((c # cs) @ b) = Some b" using match_ts_token [OF assms, of b] tc by simp
  then show ?case using tc by simp
next
  case (2 c cs)
  show ?case
  proof (cases "match_ts (c # cs)")
    case None
    have "match_ts ((c # cs) @ tok @ b) = None"
    proof (rule ccontr)
      assume "match_ts ((c # cs) @ tok @ b) \<noteq> None"
      then obtain r where "match_ts ((c # cs) @ tok @ b) = Some r" by auto
      from match_before_token [OF _ assms this] None show False by simp
    qed
    then have "match_ts (c # cs @ tok @ b) = None" by simp
    with None "2.IH" show ?thesis by simp
  next
    case (Some rest)
    from match_ts_append [OF Some, of "tok @ b"]
    have "match_ts (c # cs @ tok @ b) = Some (rest @ tok @ b)" by simp
    with Some "2.IH" show ?thesis by simp
  qed
qed

lemma strip_no_ts: "\<not> contains_ts s \<Longrightarrow> strip_timestamps s = s"
  by (induction s) auto

lemma strip_length_le: "length (strip_timestamps s) \<le> length s"
proof (induction s rule: strip_timestamps.induct)
  case 1
  then show ?case by simp
next
  case (2 c cs)
  then show ?case
    by (cases "match_ts (c # cs)") (auto dest: match_ts_length)
qed

lemma strip_shorter: "contains_ts s \<Longrightarrow> length (strip_timestamps s) < length s"
proof (induction s rule: strip_timestamps.induct)
  case 1
  then show ?case by simp
next
  case (2 c cs)
  show ?case
  proof (cases "match_ts (c # cs)")
    case None
    with 2 show ?thesis by simp
  next
    case (Some rest)
    have "length (strip_timestamps rest) \<le> length rest" by (rule strip_length_le)
    with match_ts_length [OF Some] Some show ?thesis by simp
  qed
qed

lemma has_timestamp_iff: "has_timestamp s \<longleftrightarrow> contains_ts s"
proof
  assume "has_timestamp s"
  then obtain a tok b where s: "s = a @ tok @ b" and t: "timestamp_token tok"
    unfolding has_timestamp_def by blast
  have "contains_ts (a @ tok @ b)"
  proof (induction a)
    case Nil
    from token_not_Nil [OF t] obtain c cs where tc: "tok = c # cs" by (cases tok) auto
    with match_ts_token [OF t, of b] show ?case by simp
  next
    case (Cons x a)
    then show ?case by simp
  qed
  with s show "contains_ts s" by simp
next
  assume "contains_ts s"
  then show "has_timestamp s"
  proof (induction s)
    case Nil
    then show ?case by simp
  next
    case (Cons c cs)
    show ?case
    proof (cases "match_ts (c # cs)")
      case None
      with Cons obtain a tok b where "cs = a @ tok @ b" "timestamp_token tok"
        unfolding has_timestamp_def by auto
      then have "c # cs = (c # a) @ tok @ b" by simp
      with \<open>timestamp_token tok\<close> show ?thesis unfolding has_timestamp_def by blast
    next
      case (Some r)
      then obtain tok where "timestamp_token tok" "c # cs = [] @ tok @ r"
        using match_ts_SomeD by fastforce
      then show ?thesis unfolding has_timestamp_def by blast
    qed
  qed
qed

text \<open>
  Removing a token can join the text around it into a new token, so one pass is not
  always a fixed point: \<^verbatim>\<open>[1:2[1:2:3]:3]\<close> becomes \<^verbatim>\<open>[1:2:3]\<close>, which a second
  pass removes.
\<close>

theorem strip_timestamps_not_idempotent:
  "strip_timestamps (strip_timestamps ''[1:2[1:2:3]:3]'') \<noteq> strip_timestamps ''[1:2[1:2:3]:3]''"
  by code_simp

text \<open>
  Claim C4, as amended. Every substring of the input that is a timestamp token is
  removed, and the text before and after it is processed on its own; a text without a
  token is returned unchanged, so nothing else is removed; and a second application
  returns the result of the first exactly when that result contains no token.
\<close>

theorem strip_timestamps_removes_tokens:
  "(timestamp_token tok \<longrightarrow>
      strip_timestamps (a @ tok @ b) = strip_timestamps a @ strip_timestamps b)
   \<and> (\<not> has_timestamp s \<longrightarrow> strip_timestamps s = s)
   \<and> (strip_timestamps (strip_timestamps s) = strip_timestamps s
        \<longleftrightarrow> \<not> has_timestamp (strip_timestamps s))"
proof (intro conjI impI)
  assume "timestamp_token tok"
  then show "strip_timestamps (a @ tok @ b) = strip_timestamps a @ strip_timestamps b"
    by (rule strip_append_token)
next
  assume "\<not> has_timestamp s"
  then show "strip_timestamps s = s" by (simp add: has_timestamp_iff strip_no_ts)
next
  show "strip_timestamps (strip_timestamps s) = strip_timestamps s
        \<longleftrightarrow> \<not> has_timestamp (strip_timestamps s)"
    using strip_shorter [of "strip_timestamps s"] strip_no_ts [of "strip_timestamps s"]
    by (auto simp: has_timestamp_iff)
qed

theorem strip_timestamps_removes_tokens_witness:
  "timestamp_token ''[00:00:01]''
   \<and> strip_timestamps (''x'' @ ''[00:00:01]'' @ ''Hello'') = ''xHello''
   \<and> \<not> has_timestamp ''Hello''
   \<and> strip_timestamps ''Hello'' = ''Hello''
   \<and> strip_timestamps (strip_timestamps ''Hello'') = strip_timestamps ''Hello''"
proof -
  have d: "\<forall>c \<in> set ''00'' \<union> set ''00'' \<union> set ''01''. is_digit c"
    by (simp add: is_digit_def)
  have "''[00:00:01]'' = CHR ''['' # ''00'' @ CHR '':'' # ''00'' @ CHR '':'' # ''01'' @ [CHR '']'']"
    by simp
  with d have t: "timestamp_token ''[00:00:01]''"
    unfolding timestamp_token_def by blast
  have "\<not> contains_ts ''Hello''" by code_simp
  then have n: "\<not> has_timestamp ''Hello''" using has_timestamp_iff by blast
  have x: "strip_timestamps ''x'' = ''x''" by code_simp
  note inst = strip_timestamps_removes_tokens [of "''[00:00:01]''" "''x''" "''Hello''" "''Hello''"]
  from inst n have h: "strip_timestamps ''Hello'' = ''Hello''" by blast
  from inst t have "strip_timestamps (''x'' @ ''[00:00:01]'' @ ''Hello'')
      = strip_timestamps ''x'' @ strip_timestamps ''Hello''" by blast
  with x h have c: "strip_timestamps (''x'' @ ''[00:00:01]'' @ ''Hello'') = ''xHello''" by simp
  from h n have "\<not> has_timestamp (strip_timestamps ''Hello'')" by simp
  with inst have i: "strip_timestamps (strip_timestamps ''Hello'') = strip_timestamps ''Hello''"
    by blast
  from t c n h i show ?thesis by blast
qed

section \<open>The batch importer\<close>

subsection \<open>Reading a subtitle file\<close>

text \<open>
  \<^verbatim>\<open>open(name, mode='r', encoding='utf-8-sig').read()\<close> on the bytes of a file. The
  codec drops one leading byte order mark (EF BB BF) and raises
  \<^verbatim>\<open>UnicodeDecodeError\<close>, a \<^verbatim>\<open>ValueError\<close>, unless the rest is well-formed UTF-8;
  text mode then turns \<^verbatim>\<open>\r\n\<close> and a lone \<^verbatim>\<open>\r\<close> into \<^verbatim>\<open>\n\<close>. The decoded text is
  kept as its UTF-8 bytes.
\<close>

definition byte_in :: "nat \<Rightarrow> nat \<Rightarrow> char \<Rightarrow> bool" where
  "byte_in lo hi c \<longleftrightarrow> lo \<le> (of_char c :: nat) \<and> (of_char c :: nat) \<le> hi"

fun utf8_valid :: "string \<Rightarrow> bool" where
  "utf8_valid [] = True"
| "utf8_valid [c] = byte_in 0 127 c"
| "utf8_valid [c, c1] = (if byte_in 0 127 c then utf8_valid [c1]
                          else byte_in 194 223 c \<and> byte_in 128 191 c1)"
| "utf8_valid [c, c1, c2] =
     (if byte_in 0 127 c then utf8_valid [c1, c2]
      else if byte_in 194 223 c then byte_in 128 191 c1 \<and> utf8_valid [c2]
      else (byte_in 224 224 c \<and> byte_in 160 191 c1
            \<or> byte_in 225 236 c \<and> byte_in 128 191 c1
            \<or> byte_in 237 237 c \<and> byte_in 128 159 c1
            \<or> byte_in 238 239 c \<and> byte_in 128 191 c1) \<and> byte_in 128 191 c2)"
| "utf8_valid (c # c1 # c2 # c3 # cs) =
     (if byte_in 0 127 c then utf8_valid (c1 # c2 # c3 # cs)
      else if byte_in 194 223 c then byte_in 128 191 c1 \<and> utf8_valid (c2 # c3 # cs)
      else if byte_in 224 239 c then
        (byte_in 224 224 c \<and> byte_in 160 191 c1
         \<or> byte_in 225 236 c \<and> byte_in 128 191 c1
         \<or> byte_in 237 237 c \<and> byte_in 128 159 c1
         \<or> byte_in 238 239 c \<and> byte_in 128 191 c1) \<and> byte_in 128 191 c2
        \<and> utf8_valid (c3 # cs)
      else (byte_in 240 240 c \<and> byte_in 144 191 c1
            \<or> byte_in 241 243 c \<and> byte_in 128 191 c1
            \<or> byte_in 244 244 c \<and> byte_in 128 143 c1)
           \<and> byte_in 128 191 c2 \<and> byte_in 128 191 c3 \<and> utf8_valid cs)"

definition BOM :: string where
  "BOM = [char_of (239 :: nat), char_of (187 :: nat), char_of (191 :: nat)]"

definition decode_utf8_sig :: "string \<Rightarrow> string option" where
  "decode_utf8_sig bs =
     (let body = (if take 3 bs = BOM then drop 3 bs else bs)
      in if utf8_valid body then Some body else None)"

fun universal_newlines :: "string \<Rightarrow> string" where
  "universal_newlines [] = []"
| "universal_newlines [c] = (if c = char_of (13 :: nat) then [char_of (10 :: nat)] else [c])"
| "universal_newlines (c # d # cs) =
     (if c = char_of (13 :: nat) then
        (if d = char_of (10 :: nat) then char_of (10 :: nat) # universal_newlines cs
         else char_of (10 :: nat) # universal_newlines (d # cs))
      else c # universal_newlines (d # cs))"

definition read_text :: "string \<Rightarrow> string option" where
  "read_text bs = map_option universal_newlines (decode_utf8_sig bs)"


subsection \<open>The world of an import\<close>

text \<open>
  The working directory is the source directory (\<^verbatim>\<open>os.chdir(dir_path)\<close>, line 105),
  kept as the list of its entries in listing order. It is flat: an entry is a regular
  file with its bytes or a subdirectory, and nothing can be created below it, so a
  destination with a path separator is refused.
\<close>

datatype entry = File string | Dir

type_synonym directory = "(string \<times> entry) list"

record "note" =
  note_model :: string
  note_did :: nat
  note_fields :: "(string \<times> string) list"
  note_tags :: "string list"

text \<open>
  What the host decides: the editor's media type tuples, the text of
  \<^verbatim>\<open>str(time.time())\<close> at the \<open>k\<close>-th reading of the clock, the \<open>k\<close>-th number drawn
  by the random generator, and the number of cards the collection generates for a
  submitted note.
\<close>

record host =
  AUDIO_TYPES :: "string list"
  IMAGE_TYPES :: "string list"
  time_str :: "nat \<Rightarrow> string"
  randbelow :: "nat \<Rightarrow> nat"
  cards_of :: "note \<Rightarrow> nat"

record collection =
  decks :: "(string \<times> nat) list"
  models :: "(string \<times> string list) list"

text \<open>
  \<open>media\<close> lists the names handed to \<^verbatim>\<open>mw.col.media.addFile\<close>, \<open>col_notes\<close> the
  notes the collection holds, and \<open>submitted\<close> every note handed to
  \<^verbatim>\<open>mw.col.addNote\<close>, kept or not. \<open>clock\<close> and \<open>draws\<close> count the readings of the
  clock and of the random generator.
\<close>

record world =
  cwd :: directory
  media :: "string list"
  col_notes :: "note list"
  submitted :: "note list"
  clock :: nat
  draws :: nat

record config =
  prov :: string
  deck_name :: string
  model_name :: string
  field_map :: "(string \<times> int) list"
  tags :: string

record scan =
  audio_files :: "(string \<times> string) list"
  std_image_files :: "string list"
  sub_files :: "(string \<times> string) list"

record report =
  card_count :: nat
  is_import_failed :: bool

subsection \<open>Files\<close>

fun write_entry :: "string \<Rightarrow> string \<Rightarrow> directory \<Rightarrow> directory" where
  "write_entry name bs [] = [(name, File bs)]"
| "write_entry name bs ((n, e) # d) =
     (if n = name then (n, File bs) # d else (n, e) # write_entry name bs d)"

text \<open>
  \<^verbatim>\<open>shutil.copyfile(src, dst)\<close>: the source has to be a regular file, source and
  destination must differ (\<^verbatim>\<open>SameFileError\<close>), and the destination must not be a
  directory; an existing destination file is overwritten.
\<close>

definition copyfile :: "string \<Rightarrow> string \<Rightarrow> world \<Rightarrow> py_error + world" where
  "copyfile src dst w =
     (case map_of (cwd w) src of
        Some (File bs) \<Rightarrow>
          if src = dst \<or> CHR ''/'' \<in> set dst \<or> map_of (cwd w) dst = Some Dir
          then Inl OSError
          else Inr (w\<lparr>cwd := write_entry dst bs (cwd w)\<rparr>)
      | _ \<Rightarrow> Inl OSError)"

text \<open>\<^verbatim>\<open>os.remove(name)\<close>: only a regular file can be removed.\<close>

definition remove_file :: "string \<Rightarrow> world \<Rightarrow> py_error + world" where
  "remove_file name w =
     (case map_of (cwd w) name of
        Some (File bs) \<Rightarrow> Inr (w\<lparr>cwd := filter (\<lambda>(n, e). n \<noteq> name) (cwd w)\<rparr>)
      | _ \<Rightarrow> Inl OSError)"

text \<open>\<^verbatim>\<open>mw.col.media.addFile(name)\<close> reads the file and stores it in the media folder.\<close>

definition addFile :: "string \<Rightarrow> world \<Rightarrow> py_error + world" where
  "addFile name w =
     (case map_of (cwd w) name of
        Some (File bs) \<Rightarrow> Inr (w\<lparr>media := media w @ [name]\<rparr>)
      | _ \<Rightarrow> Inl OSError)"

subsection \<open>The classification loop\<close>

text \<open>
  Lines 116-132. The list of names was read before the loop, so the copies the loop
  makes are not classified themselves.
\<close>

fun classify_files ::
  "host \<Rightarrow> string \<Rightarrow> string list \<Rightarrow> world \<times> scan \<Rightarrow> py_error + world \<times> scan" where
  "classify_files h std_prefix [] (w, sc) = Inr (w, sc)"
| "classify_files h std_prefix (f # fs) (w, sc) =
     (let (file_root, ext) = splitext f in
      case classify (AUDIO_TYPES h) (IMAGE_TYPES h) f of
        Audio \<Rightarrow>
          classify_files h std_prefix fs
            (w, sc\<lparr>audio_files := audio_files sc @ [(file_root, ext)]\<rparr>)
      | Subtitle \<Rightarrow>
          classify_files h std_prefix fs
            (w, sc\<lparr>sub_files := sub_files sc @ [(file_root, ext)]\<rparr>)
      | Image \<Rightarrow>
          (let std_name = std_prefix @ ''.image-'' @ time_str h (clock w) @ ext in
           case copyfile f std_name (w\<lparr>clock := Suc (clock w)\<rparr>) of
             Inl err \<Rightarrow> Inl err
           | Inr w' \<Rightarrow>
               classify_files h std_prefix fs
                 (w', sc\<lparr>std_image_files := std_image_files sc @ [std_name]\<rparr>))
      | Ignored \<Rightarrow> classify_files h std_prefix fs (w, sc))"

subsection \<open>One note\<close>

text \<open>
  Lines 146-157. The lookup of the subtitle raises \<^verbatim>\<open>ValueError\<close> when no subtitle
  has the root of the audio file, and the handler makes the line empty; a text that
  cannot be decoded raises a \<^verbatim>\<open>ValueError\<close> too and ends in the same handler. A
  subtitle that cannot be opened raises \<^verbatim>\<open>OSError\<close>, which is not handled.
\<close>

definition subtitle_line :: "world \<Rightarrow> (string \<times> string) list \<Rightarrow> string \<Rightarrow> py_error + string" where
  "subtitle_line w subs root =
     (case map_of subs root of
        None \<Rightarrow> Inr []
      | Some sub_ext \<Rightarrow>
          (case map_of (cwd w) (root @ sub_ext) of
             Some (File bs) \<Rightarrow>
               (case read_text bs of
                  None \<Rightarrow> Inr []
                | Some text \<Rightarrow> Inr (strip_timestamps text))
           | _ \<Rightarrow> Inl OSError))"

text \<open>
  \<^verbatim>\<open>notes.Note(mw.col, model)\<close> and \<^verbatim>\<open>note.model()['did'] = deck['id']\<close> (lines
  143-144): every field of the note type starts empty; a note type or a deck that
  \<^verbatim>\<open>byName\<close> did not find is \<^verbatim>\<open>None\<close>, and using it raises \<^verbatim>\<open>TypeError\<close>.
\<close>

definition new_note :: "collection \<Rightarrow> config \<Rightarrow> py_error + note" where
  "new_note col cfg =
     (case map_of (models col) (model_name cfg) of
        None \<Rightarrow> Inl TypeError
      | Some flds \<Rightarrow>
          (case map_of (decks col) (deck_name cfg) of
             None \<Rightarrow> Inl TypeError
           | Some did \<Rightarrow>
               Inr \<lparr>note_model = model_name cfg, note_did = did,
                    note_fields = map (\<lambda>name. (name, [])) flds, note_tags = []\<rparr>))"

text \<open>\<^verbatim>\<open>note[field] = data\<close> raises \<^verbatim>\<open>KeyError\<close> for a name that is no field of the note.\<close>

definition set_field :: "string \<Rightarrow> string \<Rightarrow> note \<Rightarrow> py_error + note" where
  "set_field field data n =
     (if field \<in> fst ` set (note_fields n)
      then Inr (n\<lparr>note_fields := map (\<lambda>(k, v). if k = field then (k, data) else (k, v))
                                      (note_fields n)\<rparr>)
      else Inl KeyError)"

text \<open>
  The value of one field (lines 161-177), for an option other than \<open>FILL_NOTHING\<close>.
  \<^verbatim>\<open>random.choice\<close> takes the element at a drawn index below the length of the list.
\<close>

definition dquote :: char where
  "dquote = CHR 0x22"

definition fill_data ::
  "host \<Rightarrow> string \<Rightarrow> string \<Rightarrow> string \<Rightarrow> string list \<Rightarrow> string \<Rightarrow> world
     \<Rightarrow> py_error + world \<times> string" where
  "fill_data h prv std_root line imgs option w =
     (if option = FILL_FILENAME then Inr (w, std_root)
      else if option = FILL_PROV then Inr (w, prv)
      else if option = FILL_AUDIO then Inr (w, ''[sound:'' @ std_root @ '']'')
      else if option = FILL_LINE then Inr (w, line)
      else if option = FILL_IMAGE then
        (if imgs \<noteq> [] then
           (let image = imgs ! (randbelow h (draws w) mod length imgs) in
            case addFile image (w\<lparr>draws := Suc (draws w)\<rparr>) of
              Inl err \<Rightarrow> Inl err
            | Inr w' \<Rightarrow> Inr (w', ''<img src='' @ [dquote] @ image @ [dquote] @ ''>''))
         else Inr (w, []))
      else Inr (w, []))"

fun fill_fields ::
  "host \<Rightarrow> string \<Rightarrow> string \<Rightarrow> string \<Rightarrow> string list \<Rightarrow> (string \<times> int) list
     \<Rightarrow> world \<times> note \<Rightarrow> py_error + world \<times> note" where
  "fill_fields h prv std_root line imgs [] (w, n) = Inr (w, n)"
| "fill_fields h prv std_root line imgs ((field, option_idx) # rest) (w, n) =
     (case py_index FILLING_OPTIONS option_idx of
        Inl err \<Rightarrow> Inl err
      | Inr option \<Rightarrow>
          if option = FILL_NOTHING then fill_fields h prv std_root line imgs rest (w, n)
          else
            (case fill_data h prv std_root line imgs option w of
               Inl err \<Rightarrow> Inl err
             | Inr (w', data) \<Rightarrow>
                 (case set_field field data n of
                    Inl err \<Rightarrow> Inl err
                  | Inr n' \<Rightarrow> fill_fields h prv std_root line imgs rest (w', n'))))"

text \<open>
  \<^verbatim>\<open>mw.col.addNote(note)\<close> returns the number of cards generated and keeps the note
  only when there is one.
\<close>

definition addNote :: "host \<Rightarrow> note \<Rightarrow> world \<Rightarrow> world \<times> nat" where
  "addNote h n w =
     (let w' = w\<lparr>submitted := submitted w @ [n]\<rparr>
      in if cards_of h n = 0 then (w', 0)
         else (w'\<lparr>col_notes := col_notes w' @ [n]\<rparr>, cards_of h n))"

subsection \<open>The note loop and the whole import\<close>

text \<open>
  The body of the note loop up to the tags (lines 136-182) for the \<open>i\<close>-th audio file,
  counted from 0. Lines 136-140 import the audio file under \<open>std_name\<close>, the
  standardized root with the extension of the file, and remove the copy again.
\<close>

definition audio_std_root :: "host \<Rightarrow> config \<Rightarrow> world \<Rightarrow> nat \<Rightarrow> string" where
  "audio_std_root h cfg w i =
     replace_space_dot (prov cfg) @ ''.audio-'' @ time_str h (clock w)
       @ ''('' @ str_nat (i + 1) @ '')''"

definition prepare_note ::
  "host \<Rightarrow> collection \<Rightarrow> config \<Rightarrow> scan \<Rightarrow> nat \<Rightarrow> string \<times> string \<Rightarrow> world
     \<Rightarrow> py_error + world \<times> note" where
  "prepare_note h col cfg sc i audio w =
     (let (root, ext) = audio;
          std_root = audio_std_root h cfg w i;
          std_name = std_root @ ext
      in case copyfile (root @ ext) std_name (w\<lparr>clock := Suc (clock w)\<rparr>) of
           Inl err \<Rightarrow> Inl err
         | Inr w1 \<Rightarrow>
        (case addFile std_name w1 of
           Inl err \<Rightarrow> Inl err
         | Inr w2 \<Rightarrow>
        (case remove_file std_name w2 of
           Inl err \<Rightarrow> Inl err
         | Inr w3 \<Rightarrow>
        (case new_note col cfg of
           Inl err \<Rightarrow> Inl err
         | Inr n0 \<Rightarrow>
        (case subtitle_line w3 (sub_files sc) root of
           Inl err \<Rightarrow> Inl err
         | Inr line \<Rightarrow>
        (case fill_fields h (prov cfg) std_root line (std_image_files sc) (field_map cfg)
                (w3, n0) of
           Inl err \<Rightarrow> Inl err
         | Inr (w4, n1) \<Rightarrow> Inr (w4, n1\<lparr>note_tags := note_tags n1 @ [tags cfg]\<rparr>)))))))"

text \<open>
  The note loop (lines 135-193) for the audio files from the \<open>i\<close>-th on: the note is
  submitted, and a note without cards ends the loop. The result carries
  \<^verbatim>\<open>card_count\<close> and \<^verbatim>\<open>is_import_failed\<close>.
\<close>

fun import_audio ::
  "host \<Rightarrow> collection \<Rightarrow> config \<Rightarrow> scan \<Rightarrow> nat \<Rightarrow> (string \<times> string) list
     \<Rightarrow> world \<times> nat \<Rightarrow> py_error + world \<times> report" where
  "import_audio h col cfg sc i [] (w, count) =
     Inr (w, \<lparr>card_count = count, is_import_failed = False\<rparr>)"
| "import_audio h col cfg sc i (audio # rest) (w, count) =
     (case prepare_note h col cfg sc i audio w of
        Inl err \<Rightarrow> Inl err
      | Inr (w4, n) \<Rightarrow>
          (let (w5, cards) = addNote h n w4
           in if cards = 0
              then Inr (w5, \<lparr>card_count = count, is_import_failed = True\<rparr>)
              else import_audio h col cfg sc (i + 1) rest (w5, count + 1)))"

fun remove_all :: "string list \<Rightarrow> world \<Rightarrow> py_error + world" where
  "remove_all [] w = Inr w"
| "remove_all (name # names) w =
     (case remove_file name w of Inl err \<Rightarrow> Inl err | Inr w' \<Rightarrow> remove_all names w')"

text \<open>
  \<^verbatim>\<open>do_import\<close> after the settings dialog was confirmed (lines 97-205). The progress
  bar and the refresh of the deck browser are left out; the dialog shown at the end is
  decided by the report.
\<close>

definition do_import :: "host \<Rightarrow> collection \<Rightarrow> config \<Rightarrow> world \<Rightarrow> py_error + world \<times> report" where
  "do_import h col cfg w =
     (case classify_files h (replace_space_dot (prov cfg)) (map fst (cwd w))
             (w, \<lparr>audio_files = [], std_image_files = [], sub_files = []\<rparr>) of
        Inl err \<Rightarrow> Inl err
      | Inr (w1, sc) \<Rightarrow>
          (case import_audio h col cfg sc 0 (audio_files sc) (w1, 0) of
             Inl err \<Rightarrow> Inl err
           | Inr (w2, rep) \<Rightarrow>
               (case remove_all (std_image_files sc) w2 of
                  Inl err \<Rightarrow> Inl err
                | Inr w3 \<Rightarrow> Inr (w3, rep))))"

datatype dialog = Failure_Dialog | Completion_Dialog nat string

definition final_dialog :: "config \<Rightarrow> report \<Rightarrow> dialog" where
  "final_dialog cfg rep =
     (if is_import_failed rep then Failure_Dialog
      else Completion_Dialog (card_count rep) (deck_name cfg))"

text \<open>The end-to-end scenario of the specification.\<close>

definition demo_host :: host where
  "demo_host = \<lparr>AUDIO_TYPES = [''wav'', ''mp3'', ''ogg''], IMAGE_TYPES = [''jpg'', ''png''],
     time_str = (\<lambda>k. ''1.'' @ str_nat k), randbelow = (\<lambda>k. k), cards_of = (\<lambda>n. 1)\<rparr>"

definition demo_col :: collection where
  "demo_col = \<lparr>decks = [(''Default'', 1)], models = [(''Basic'', [''Front'', ''Back''])]\<rparr>"

definition demo_world :: world where
  "demo_world = \<lparr>cwd = [(''a.mp3'', File ''AAA''), (''a.lrc'', File ''[00:00:01]Hello''),
                         (''b.mp3'', File ''BBB''), (''cover.jpg'', File ''JJJ'')],
     media = [], col_notes = [], submitted = [], clock = 0, draws = 0\<rparr>"

definition demo_cfg :: config where
  "demo_cfg = \<lparr>prov = ''My Show'', deck_name = ''Default'', model_name = ''Basic'',
     field_map = [(''Front'', 3), (''Back'', 4)], tags = ''tv''\<rparr>"

subsection \<open>Names and outcomes used in the statements\<close>







text \<open>The scenario after the import: the result of the run evaluated below.\<close>

definition demo_after :: world where
  "demo_after =
     \<lparr>cwd = [(''a.mp3'', File ''AAA''), (''a.lrc'', File ''[00:00:01]Hello''),
             (''b.mp3'', File ''BBB''), (''cover.jpg'', File ''JJJ'')],
      media = [''My.Show.audio-1.1(1).mp3'', ''My.Show.audio-1.2(2).mp3''],
      col_notes =
        [\<lparr>note_model = ''Basic'', note_did = 1,
           note_fields = [(''Front'', ''[sound:My.Show.audio-1.1(1)]''), (''Back'', ''Hello'')],
           note_tags = [''tv'']\<rparr>,
         \<lparr>note_model = ''Basic'', note_did = 1,
           note_fields = [(''Front'', ''[sound:My.Show.audio-1.2(2)]''), (''Back'', [])],
           note_tags = [''tv'']\<rparr>],
      submitted =
        [\<lparr>note_model = ''Basic'', note_did = 1,
           note_fields = [(''Front'', ''[sound:My.Show.audio-1.1(1)]''), (''Back'', ''Hello'')],
           note_tags = [''tv'']\<rparr>,
         \<lparr>note_model = ''Basic'', note_did = 1,
           note_fields = [(''Front'', ''[sound:My.Show.audio-1.2(2)]''), (''Back'', [])],
           note_tags = [''tv'']\<rparr>],
      clock = 3, draws = 0\<rparr>"

section \<open>Properties of the batch importer\<close>

subsection \<open>The run of the scenario\<close>

lemma demo_run:
  "do_import demo_host demo_col demo_cfg demo_world =
     Inr (demo_after, \<lparr>card_count = 2, is_import_failed = False\<rparr>)"
  unfolding demo_after_def by code_simp

subsection \<open>Files, media and notes through the loops\<close>
























lemma audio_name_not_image: "p @ ''.audio-'' @ t \<noteq> p @ ''.image-'' @ t'"
  by simp




subsection \<open>The report of an import\<close>






subsection \<open>Image files\<close>




subsection \<open>The audio reference\<close>

text \<open>
  Claim C1, evaluated on the scenario: the audio files are added to the media storage
  under the standardized root followed by the extension, \<^verbatim>\<open>.mp3\<close>, and the
  \<open>Front\<close> fields refer to the standardized root alone.
\<close>

theorem audio_reference_omits_extension:
  "do_import demo_host demo_col demo_cfg demo_world
     = Inr (demo_after, \<lparr>card_count = 2, is_import_failed = False\<rparr>)
   \<and> media demo_after = [''My.Show.audio-1.1(1).mp3'', ''My.Show.audio-1.2(2).mp3'']
   \<and> map note_fields (col_notes demo_after) =
        [[(''Front'', ''[sound:My.Show.audio-1.1(1)]''), (''Back'', ''Hello'')],
         [(''Front'', ''[sound:My.Show.audio-1.2(2)]''), (''Back'', [])]]"
  using demo_run by (simp add: demo_after_def)

subsection \<open>The values written to the fields\<close>

























section \<open>The settings dialog\<close>

subsection \<open>The settings document\<close>

text \<open>
  The dictionary that \<^verbatim>\<open>accept\<close> writes to \<^verbatim>\<open>settings.json\<close> and that
  \<^verbatim>\<open>json.load\<close> gives back: each of the six keys is there or not. The file itself is
  absent, or holds text that \<^verbatim>\<open>json.load\<close> rejects, or holds such a dictionary;
  \<^verbatim>\<open>json.dumps\<close> followed by \<^verbatim>\<open>json.load\<close> returns the strings, integers and
  dictionaries it was given, so the document read is the document written.
\<close>

record settings_dict =
  s_dirPath :: "string option"
  s_prov :: "string option"
  s_deckName :: "string option"
  s_modelName :: "string option"
  s_fieldMap :: "(string \<times> int) list option"
  s_tags :: "string option"

definition no_settings :: settings_dict where
  "no_settings = \<lparr>s_dirPath = None, s_prov = None, s_deckName = None, s_modelName = None,
                   s_fieldMap = None, s_tags = None\<rparr>"

datatype settings_file = Absent | Malformed | Document settings_dict

text \<open>
  Lines 250-255: \<^verbatim>\<open>open\<close> raises \<^verbatim>\<open>FileNotFoundError\<close> for an absent file, an
  \<^verbatim>\<open>EnvironmentError\<close>, which is caught and leaves the empty dictionary;
  \<^verbatim>\<open>json.load\<close> raises \<^verbatim>\<open>JSONDecodeError\<close>, a \<^verbatim>\<open>ValueError\<close>, which the handler
  does not catch.
\<close>

definition load_settings :: "settings_file \<Rightarrow> py_error + settings_dict" where
  "load_settings file =
     (case file of
        Absent \<Rightarrow> Inr no_settings
      | Malformed \<Rightarrow> Inl JSONDecodeError
      | Document d \<Rightarrow> Inr d)"

text \<open>\<^verbatim>\<open>d.get(key, default)\<close>.\<close>

definition get_default :: "'a option \<Rightarrow> 'a \<Rightarrow> 'a" where
  "get_default v dflt = (case v of None \<Rightarrow> dflt | Some x \<Rightarrow> x)"

subsection \<open>What the dialog reads from the host\<close>

record desktop =
  col :: collection
  current_deck :: string
  current_model :: string
  existing_paths :: "string list"
  home :: string

text \<open>\<^verbatim>\<open>os.path.exists\<close>; the empty path does not exist.\<close>

definition path_exists :: "desktop \<Rightarrow> string \<Rightarrow> bool" where
  "path_exists d p \<longleftrightarrow> p \<noteq> [] \<and> p \<in> set (existing_paths d)"

text \<open>\<^verbatim>\<open>os.path.basename\<close>: what follows the last separator.\<close>

definition basename :: "string \<Rightarrow> string" where
  "basename p = rev (takeWhile (\<lambda>c. c \<noteq> CHR ''/'') (rev p))"

subsection \<open>The state of the dialog\<close>

text \<open>
  The attributes of \<^verbatim>\<open>SettingsDialog\<close> and the grid of the form: one row per field
  of the note type, with the text of its label and the current index of its combo box.
\<close>

record dialog_state =
  self_dirPath :: string
  self_prov :: string
  self_deckName :: string
  self_modelName :: string
  self_fieldMap :: "(string \<times> int) list"
  self_tags :: string
  grid :: "(string \<times> int) list"

text \<open>
  \<^verbatim>\<open>QComboBox.setCurrentIndex\<close> on a combo box holding the entries of
  \<open>FILLING_OPTIONS\<close>: an index of an entry is taken, any other index leaves the box
  without a selection, and \<^verbatim>\<open>currentIndex()\<close> is then \<open>-1\<close>.
\<close>

definition setCurrentIndex :: "int \<Rightarrow> int" where
  "setCurrentIndex i = (if 0 \<le> i \<and> i < int (length FILLING_OPTIONS) then i else - 1)"

text \<open>Lines 343-370. \<^verbatim>\<open>byName\<close> gives \<^verbatim>\<open>None\<close> for an unknown note type.\<close>

definition create_field_grid :: "desktop \<Rightarrow> dialog_state \<Rightarrow> py_error + dialog_state" where
  "create_field_grid d st =
     (if self_modelName st = [] then Inr (st\<lparr>grid := []\<rparr>)
      else case map_of (models (col d)) (self_modelName st) of
             None \<Rightarrow> Inl TypeError
           | Some flds \<Rightarrow>
               Inr (st\<lparr>grid := map (\<lambda>name. (name, setCurrentIndex
                                       (get_default (map_of (self_fieldMap st) name) (- 1))))
                                  flds\<rparr>))"

text \<open>\<^verbatim>\<open>SettingsDialog.__init__\<close> up to the call of \<^verbatim>\<open>exec_\<close> (lines 249-289).\<close>

definition SettingsDialog_init :: "desktop \<Rightarrow> settings_file \<Rightarrow> py_error + dialog_state" where
  "SettingsDialog_init d file =
     (case load_settings file of
        Inl err \<Rightarrow> Inl err
      | Inr settings \<Rightarrow>
          (let dir0 = get_default (s_dirPath settings) [];
               dir = (if \<not> path_exists d dir0 then home d else dir0);
               deck_list = map fst (decks (col d));
               deck0 = get_default (s_deckName settings) [];
               deck = (if deck0 \<notin> set deck_list then current_deck d else deck0);
               model_list = map fst (models (col d));
               model0 = get_default (s_modelName settings) [];
               model = (if model0 \<notin> set model_list then current_model d else model0)
           in case create_field_grid d
                     \<lparr>self_dirPath = dir, self_prov = get_default (s_prov settings) [],
                      self_deckName = deck, self_modelName = model,
                      self_fieldMap = get_default (s_fieldMap settings) [],
                      self_tags = [], grid = []\<rparr> of
                Inl err \<Rightarrow> Inl err
              | Inr st \<Rightarrow> Inr (st\<lparr>self_tags := get_default (s_tags settings) []\<rparr>)))"

subsection \<open>The slots\<close>

text \<open>
  Lines 300-341, with what the user did as an argument: the directory picked in the
  file dialog (empty when it was cancelled), the text typed, the entry chosen.
\<close>

definition browse_dir :: "string \<Rightarrow> dialog_state \<Rightarrow> dialog_state" where
  "browse_dir path st =
     (if path = [] then st else st\<lparr>self_dirPath := path, self_prov := basename path\<rparr>)"

definition prov_edited :: "string \<Rightarrow> dialog_state \<Rightarrow> dialog_state" where
  "prov_edited text st = st\<lparr>self_prov := text\<rparr>"

definition deck_changed :: "string \<Rightarrow> dialog_state \<Rightarrow> dialog_state" where
  "deck_changed name st = st\<lparr>self_deckName := name\<rparr>"

definition model_changed :: "desktop \<Rightarrow> string \<Rightarrow> dialog_state \<Rightarrow> py_error + dialog_state" where
  "model_changed d name st = create_field_grid d (st\<lparr>self_modelName := name\<rparr>)"

definition tags_changed :: "string \<Rightarrow> dialog_state \<Rightarrow> dialog_state" where
  "tags_changed text st = st\<lparr>self_tags := text\<rparr>"

text \<open>The user picks the entry \<open>i\<close> in the combo box of a row of the grid.\<close>

definition option_picked :: "nat \<Rightarrow> nat \<Rightarrow> dialog_state \<Rightarrow> dialog_state" where
  "option_picked row i st =
     (if row < length (grid st) \<and> i < length FILLING_OPTIONS
      then st\<lparr>grid := (grid st)[row := (fst (grid st ! row), int i)]\<rparr>
      else st)"

subsection \<open>Confirming\<close>

text \<open>\<^verbatim>\<open>d[key] = value\<close> on a dictionary kept in insertion order.\<close>

definition dict_set :: "'k \<Rightarrow> 'v \<Rightarrow> ('k \<times> 'v) list \<Rightarrow> ('k \<times> 'v) list" where
  "dict_set k v d =
     (if k \<in> fst ` set d then map (\<lambda>kv. if fst kv = k then (k, v) else kv) d
      else d @ [(k, v)])"

text \<open>
  Lines 406-412: the rows \<open>0 \<dots> n - 1\<close> of the grid are read; a row that is not there
  has no item, and calling a method of \<^verbatim>\<open>None\<close> raises \<^verbatim>\<open>AttributeError\<close>.
\<close>

fun read_grid :: "(string \<times> int) list \<Rightarrow> nat list \<Rightarrow> (string \<times> int) list
    \<Rightarrow> py_error + (string \<times> int) list" where
  "read_grid g [] fm = Inr fm"
| "read_grid g (row # rows) fm =
     (if row < length g
      then read_grid g rows (dict_set (fst (g ! row)) (snd (g ! row)) fm)
      else Inl AttributeError)"

datatype accept_result = Reprompt dialog_state | Accepted dialog_state settings_file

text \<open>
  \<^verbatim>\<open>accept\<close> (lines 383-434). \<open>picked\<close> is the directory the user picks when the
  dialog asks for another one. A confirmed dialog comes with the file it has written.
\<close>

definition accept :: "desktop \<Rightarrow> string \<Rightarrow> dialog_state \<Rightarrow> py_error + accept_result" where
  "accept d picked st =
     (if \<not> path_exists d (self_dirPath st) then Inr (Reprompt (browse_dir picked st))
      else
        (let st1 = (if self_prov st = [] then st\<lparr>self_prov := ''Unknown''\<rparr> else st);
             st2 = (if self_deckName st1 = [] then st1\<lparr>self_deckName := current_deck d\<rparr> else st1);
             st3 = (if self_modelName st2 = [] then st2\<lparr>self_modelName := current_model d\<rparr>
                    else st2)
         in case map_of (models (col d)) (self_modelName st3) of
              None \<Rightarrow> Inl TypeError
            | Some flds \<Rightarrow>
                (case read_grid (grid st3) [0 ..< length flds] [] of
                   Inl err \<Rightarrow> Inl err
                 | Inr fm \<Rightarrow>
                     (let st4 = st3\<lparr>self_fieldMap := fm\<rparr>
                      in Inr (Accepted st4
                            (Document \<lparr>s_dirPath = Some (self_dirPath st4),
                                       s_prov = Some (self_prov st4),
                                       s_deckName = Some (self_deckName st4),
                                       s_modelName = Some (self_modelName st4),
                                       s_fieldMap = Some (self_fieldMap st4),
                                       s_tags = Some (self_tags st4)\<rparr>))))))"

text \<open>\<^verbatim>\<open>get_result\<close> of a confirmed dialog: the configuration handed to the import.\<close>

definition get_result :: "dialog_state \<Rightarrow> config" where
  "get_result st =
     \<lparr>prov = self_prov st, deck_name = self_deckName st, model_name = self_modelName st,
      field_map = self_fieldMap st, tags = self_tags st\<rparr>"

text \<open>A host for the scenario.\<close>

definition demo_desktop :: desktop where
  "demo_desktop = \<lparr>col = demo_col, current_deck = ''Default'', current_model = ''Basic'',
                    existing_paths = [''/home/me'', ''/home/me/My Show''], home = ''/home/me''\<rparr>"

end
